theory Spec2Isabelle
  imports Main "HOL-Library.AList"
begin

section \<open>The Player entity of whispermud-core\<close>

text \<open>
  The class \<open>Player\<close> is embedded method by method. The player object \<open>this\<close> is a
  record; everything it shares with other objects (room membership sets, the calls it
  makes on its collaborators, the diagnostics it logs) lives in a second record, the
  world, which every method takes and returns.

  The classes \<open>Character\<close>, \<open>Room\<close>, \<open>Item\<close>, \<open>QuestTracker\<close>, \<open>CommandQueue\<close> and the
  managers reached through the \<open>state\<close> argument of \<open>hydrate\<close> are required by the
  source but are not part of it. Their methods are parameters (the records
  \<open>game_state\<close> and \<open>classes\<close>), or small definitions written from the specification
  and marked as such. Code supplied at run time (event subscribers, the \<open>onMoved\<close>
  callback) is not executed: each call that leaves the class is appended to the trace of
  the world, together with the value \<open>this.room\<close> had at that moment. What the language
  and the platform throw by themselves is a result of the method, with the player and
  the world as they are at that moment.
\<close>

subsection \<open>Values\<close>

type_synonym room_ref = nat

text \<open>
  What a \<open>throw\<close> can carry: a TypeError of the language, null, undefined, or any other
  value, given with what its property \<open>message\<close> holds.
\<close>

datatype error = TypeError string | Thrown string | ThrownNull | ThrownUndefined

text \<open>Reading \<open>e.message\<close>, which is itself a TypeError on null and on undefined.\<close>

fun message :: "error \<Rightarrow> error + string" where
  "message (TypeError m) = Inr m"
| "message (Thrown m) = Inr m"
| "message ThrownNull = Inl (TypeError ''Cannot read properties of null (reading 'message')'')"
| "message ThrownUndefined =
     Inl (TypeError ''Cannot read properties of undefined (reading 'message')'')"

text \<open>JavaScript values as far as the prompt interpolator and return values need them.\<close>

datatype jsval =
    JUndefined
  | JNull
  | JBool bool
  | JNum int
  | JStr string
  | JObj "(string \<times> jsval) list"

text \<open>The field \<open>room\<close>: null, a string identifier (before hydration) or a live room.\<close>

datatype room_field = RoomNull | RoomId string | RoomRef room_ref

record account_obj =
  account_name :: string

text \<open>The field \<open>account\<close>: null, undefined, a string identifier, or a live account.\<close>

datatype account_field = AccountNull | AccountUndefined | AccountId string | AccountRef account_obj

text \<open>A serialized item, as stored under a slot of a persisted \<open>equipment\<close> object.\<close>

record item_def =
  def_area :: string
  def_entityReference :: string
  def_inventory :: string
  def_content :: string

text \<open>
  The field \<open>equipment\<close>: absent (null or undefined), the persisted object (slot and
  descriptor, in property order), or a \<open>Map\<close> of live items (in insertion order).
\<close>

datatype 'i equipment_field =
    EqAbsent
  | EqLegacy "(string \<times> item_def) list"
  | EqMap "(string \<times> 'i) list"

record attribute_values =
  attr_current :: int
  attr_max :: int
  attr_base :: int

record quest_data =
  q_active :: "string list"
  q_completed :: "string list"

datatype callback = Noop | UserFn nat

datatype arg =
    ArgPlayer
  | ArgRoom room_field
  | ArgIndex nat
  | ArgCallback callback
  | ArgData string
  | ArgError error

datatype 'i emitter = OnRoom room_ref | OnPlayer | OnQuestTracker | OnItem 'i

datatype 'i action =
    Emit "'i emitter" string "arg list"
  | AddPlayer room_ref
  | RemovePlayer room_ref
  | Call callback
  | QuestTrackerHydrate
  | InventoryHydrate
  | ItemManagerAdd 'i

subsection \<open>The player and the world\<close>

record 'i player =
  pid :: nat
  name :: string
  account :: account_field
  experience :: nat
  password :: string
  prompt :: string
  role :: nat
  room :: room_field
  equipment :: "'i equipment_field"
  attributes :: "(string \<times> attribute_values) list"
  questTracker :: quest_data
  commandQueue :: "(nat \<times> int) list"
  inventoryMax :: "nat option"
  listenerCount :: "string \<Rightarrow> nat"
  hydrated :: bool
  pruned :: bool

record 'i world =
  members :: "room_ref \<Rightarrow> nat set"
  trace :: "('i action \<times> room_field) list"
  errorLog :: "string list"

type_synonym 'i outcome = "(error \<times> 'i player \<times> 'i world) + ('i player \<times> 'i world)"

text \<open>
  The \<open>state\<close> argument of \<open>hydrate\<close>: the managers and factories it reaches.
  \<open>getRoomById\<close> is the method of the area class that \<open>hydrate\<close> calls on the
  placeholder area.
\<close>

record 'i game_state =
  getAccount :: "string \<Rightarrow> account_field"
  getArea :: "string \<Rightarrow> nat option"
  getPlaceholderArea :: "nat option"
  getRoomById :: "nat \<Rightarrow> string \<Rightarrow> room_ref option"
  ItemFactory_create :: "nat option \<Rightarrow> string \<Rightarrow> error + 'i"
  ItemManager_add :: "'i \<Rightarrow> error option"
  getRoom :: "string \<Rightarrow> room_ref option"

text \<open>
  Methods of classes that are not in the source. A result \<open>Inl e\<close> or \<open>Some e\<close> is the
  exception the method throws.
\<close>

record base_data =
  b_name :: string
  b_room :: "string option"

text \<open>
  A persisted player. \<open>None\<close> is a missing (or null) entry; \<open>s_inventoryMax\<close> stands
  for the \<open>inventory\<close> entry, of which only the capacity bound is looked at here. The
  entries \<open>metadata\<close> and \<open>socket\<close> are copied or kept by reference and left out.
\<close>

record snapshot =
  s_base :: base_data
  s_account :: "string option"
  s_experience :: nat
  s_inventoryMax :: "nat option"
  s_password :: string
  s_prompt :: string
  s_quests :: "quest_data option"
  s_role :: nat
  s_equipment :: "(string \<times> item_def) list option"

record 'i classes =
  CommandQueue_enqueue :: "(nat \<times> int) list \<Rightarrow> nat \<Rightarrow> int \<Rightarrow> nat \<times> (nat \<times> int) list"
  Item_initializeInventory :: "'i \<Rightarrow> string \<Rightarrow> error + 'i"
  Item_hydrate :: "'i \<Rightarrow> item_def \<Rightarrow> error + 'i"
  Item_emit :: "'i \<Rightarrow> string \<Rightarrow> error option"
  Item_serialize :: "'i \<Rightarrow> item_def"
  Character_equip_error :: "'i \<Rightarrow> string \<Rightarrow> error option"
  Character_serialize :: "'i player \<Rightarrow> error + base_data"
  QuestTracker_hydrate :: "quest_data \<Rightarrow> quest_data"
  QuestTracker_serialize :: "quest_data \<Rightarrow> quest_data"
  Room_entityReference :: "room_ref \<Rightarrow> string"
  Config_defaultMaxPlayerInventory :: "nat option"
  PlayerRoles_PLAYER :: nat

subsection \<open>Event publication\<close>

definition record_call :: "'i action \<Rightarrow> 'i player \<Rightarrow> 'i world \<Rightarrow> 'i world" where
  "record_call a p w = w\<lparr>trace := trace w @ [(a, room p)]\<rparr>"

text \<open>
  \<open>EventEmitter.prototype.emit\<close> of the platform, which the player inherits and reaches
  as \<open>super.emit\<close>. With no listener registered under \<open>error\<close>, that event is thrown: the
  first argument if it is an error, a new error otherwise. Every other call is recorded;
  the subscribers it reaches are whatever is registered under the event name, of which
  \<open>listenerCount\<close> gives the number.
\<close>

fun unhandled :: "arg list \<Rightarrow> error" where
  "unhandled (ArgError e # args) = e"
| "unhandled args = Thrown ''Unhandled error.''"

definition EventEmitter_emit ::
  "string \<Rightarrow> arg list \<Rightarrow> 'i player \<Rightarrow> 'i world \<Rightarrow> (error \<times> 'i world) + 'i world" where
  "EventEmitter_emit ev args p w =
     (if ev = ''error'' \<and> listenerCount p ev = 0 then Inl (unhandled args, w)
      else Inr (record_call (Emit OnPlayer ev args) p w))"

text \<open>
  Modelled from the spec: \<open>QuestTracker.emit\<close> is missing from the source. The
  specification has every event published on the player mirrored, with the same name
  and arguments, on the quest tracker's own event bus.
\<close>

definition QuestTracker_emit :: "string \<Rightarrow> arg list \<Rightarrow> 'i player \<Rightarrow> 'i world \<Rightarrow> 'i world" where
  "QuestTracker_emit ev args p w = record_call (Emit OnQuestTracker ev args) p w"

text \<open>
  \<open>Player.emit\<close>: the lifecycle guard, the player's own bus, then the quest tracker. An
  exception of the first call leaves the method before the second.
\<close>

definition emit ::
  "string \<Rightarrow> arg list \<Rightarrow> 'i player \<Rightarrow> 'i world \<Rightarrow> (error \<times> 'i world) + 'i world" where
  "emit ev args p w =
     (if pruned p \<or> \<not> hydrated p then Inr w
      else
        (case EventEmitter_emit ev args p w of
           Inl e \<Rightarrow> Inl e
         | Inr w1 \<Rightarrow> Inr (QuestTracker_emit ev args p w1)))"

text \<open>\<open>Player.save\<close>.\<close>

definition save :: "callback \<Rightarrow> 'i player \<Rightarrow> 'i world \<Rightarrow> (error \<times> 'i world) + 'i world" where
  "save cb p w =
     (if \<not> hydrated p then Inr w
      else emit ''save'' [ArgCallback cb] p w)"

text \<open>
  \<open>Player.queueCommand\<close>. The body has no \<open>return\<close> statement, so a call that returns
  evaluates to \<open>undefined\<close>; the first component of the result is that value.
\<close>

definition queueCommand ::
  "'i classes \<Rightarrow> nat \<Rightarrow> int \<Rightarrow> 'i player \<Rightarrow> 'i world \<Rightarrow>
     (error \<times> 'i player \<times> 'i world) + (jsval \<times> 'i player \<times> 'i world)" where
  "queueCommand cls executable lag p w =
     (let (index, q) = CommandQueue_enqueue cls (commandQueue p) executable lag;
          p1 = p\<lparr>commandQueue := q\<rparr>
      in (case emit ''commandQueued'' [ArgIndex index] p1 w of
            Inl (e, w1) \<Rightarrow> Inl (e, p1, w1)
          | Inr w1 \<Rightarrow> Inr (JUndefined, p1, w1)))"

subsection \<open>Room transition\<close>

text \<open>
  Modelled from the spec: \<open>Room.addPlayer\<close>, \<open>Room.removePlayer\<close> and \<open>Room.emit\<close> are
  missing from the source. The specification gives every room a membership set, to
  which the first adds the player and from which the second removes it, and an event
  bus on which notifications are published.
\<close>

definition Room_addPlayer :: "room_ref \<Rightarrow> 'i player \<Rightarrow> 'i world \<Rightarrow> 'i world" where
  "Room_addPlayer r p w =
     record_call (AddPlayer r) p (w\<lparr>members := (members w)(r := insert (pid p) (members w r))\<rparr>)"

definition Room_removePlayer :: "room_ref \<Rightarrow> 'i player \<Rightarrow> 'i world \<Rightarrow> 'i world" where
  "Room_removePlayer r p w =
     record_call (RemovePlayer r) p (w\<lparr>members := (members w)(r := members w r - {pid p})\<rparr>)"

definition Room_emit ::
  "room_ref \<Rightarrow> string \<Rightarrow> arg list \<Rightarrow> 'i player \<Rightarrow> 'i world \<Rightarrow> 'i world" where
  "Room_emit r ev args p w = record_call (Emit (OnRoom r) ev args) p w"

text \<open>A room argument as a value: \<open>None\<close> is null or undefined.\<close>

fun room_value :: "room_ref option \<Rightarrow> room_field" where
  "room_value None = RoomNull"
| "room_value (Some r) = RoomRef r"

text \<open>
  \<open>Player.moveTo\<close>. A non-empty string in \<open>this.room\<close> is truthy and differs from every
  room, and has no method \<open>emit\<close>; a missing \<open>nextRoom\<close> has no method \<open>addPlayer\<close>.
  Both are TypeErrors, raised after the effects that precede them.
\<close>

definition moveTo :: "room_ref option \<Rightarrow> callback \<Rightarrow> 'i player \<Rightarrow> 'i world \<Rightarrow> 'i outcome" where
  "moveTo nextRoom onMoved p w =
     (let prevRoom = room p;
          left =
            (case room p of
               RoomNull \<Rightarrow> Inr w
             | RoomId s \<Rightarrow>
                 if s = [] then Inr w
                 else Inl (TypeError ''this.room.emit is not a function'')
             | RoomRef a \<Rightarrow>
                 if nextRoom = Some a then Inr w
                 else
                   let w1 = Room_emit a ''playerLeave'' [ArgPlayer, ArgRoom (room_value nextRoom)] p w
                   in Inr (Room_removePlayer a p w1))
      in case left of
           Inl e \<Rightarrow> Inl (e, p, w)
         | Inr w2 \<Rightarrow>
             let p1 = p\<lparr>room := room_value nextRoom\<rparr>
             in (case nextRoom of
                   None \<Rightarrow> Inl (TypeError ''nextRoom.addPlayer is not a function'', p1, w2)
                 | Some n \<Rightarrow>
                     let w3 = Room_addPlayer n p1 w2;
                         w4 = record_call (Call onMoved) p1 w3;
                         w5 = Room_emit n ''playerEnter'' [ArgPlayer, ArgRoom prevRoom] p1 w4
                     in (case emit ''enterRoom'' [ArgRoom (RoomRef n)] p1 w5 of
                           Inl (e, w6) \<Rightarrow> Inl (e, p1, w6)
                         | Inr w6 \<Rightarrow> Inr (p1, w6))))"

subsection \<open>Construction\<close>

text \<open>
  Modelled from the spec: the constructor of \<open>Character\<close> is missing from the source.
  The specification has a player constructed from a persisted snapshot carry its room
  as the string identifier and its equipment as the persisted slot-to-descriptor object
  until hydration, with the flag "hydrated" false; the inventory bound is the persisted
  one, if any. \<open>ident\<close> is the identity of the new object, which has no listeners yet.
\<close>

definition Character_new :: "nat \<Rightarrow> snapshot \<Rightarrow> 'i player" where
  "Character_new ident data =
     \<lparr>pid = ident,
      name = b_name (s_base data),
      account = AccountNull,
      experience = 0,
      password = [],
      prompt = [],
      role = 0,
      room = (case b_room (s_base data) of None \<Rightarrow> RoomNull | Some r \<Rightarrow> RoomId r),
      equipment = (case s_equipment data of None \<Rightarrow> EqAbsent | Some defs \<Rightarrow> EqLegacy defs),
      attributes = [],
      questTracker = \<lparr>q_active = [], q_completed = []\<rparr>,
      commandQueue = [],
      inventoryMax = s_inventoryMax data,
      listenerCount = (\<lambda>ev. 0),
      hydrated = False,
      pruned = False\<rparr>"

text \<open>
  The constructor of \<open>Player\<close>, applied to the object \<open>c\<close> that \<open>super(data)\<close> has
  set up. \<open>x || d\<close> takes \<open>d\<close> when \<open>x\<close> is missing, zero or the empty string.
  Modelled from the spec: the constructor of \<open>QuestTracker\<close> is missing; the
  specification has the tracker seeded from the two lists it is given.
\<close>

definition Player_new :: "'i classes \<Rightarrow> snapshot \<Rightarrow> 'i player \<Rightarrow> 'i player" where
  "Player_new cls data c =
     (let questData = (case s_quests data of
                         None \<Rightarrow> \<lparr>q_active = [], q_completed = []\<rparr>
                       | Some q \<Rightarrow> q)
      in c\<lparr>account := (case s_account data of
                          None \<Rightarrow> AccountNull
                        | Some a \<Rightarrow> if a = [] then AccountNull else AccountId a),
            experience := s_experience data,
            password := s_password data,
            prompt := (if s_prompt data = [] then ''> '' else s_prompt data),
            questTracker := \<lparr>q_active = q_active questData, q_completed = q_completed questData\<rparr>,
            commandQueue := [],
            role := (if s_role data = 0 then PlayerRoles_PLAYER cls else s_role data),
            inventoryMax :=
              (case inventoryMax c of
                 Some m \<Rightarrow> Some m
               | None \<Rightarrow>
                   (case Config_defaultMaxPlayerInventory cls of
                      None \<Rightarrow> Some 20
                    | Some m \<Rightarrow> if m = 0 then Some 20 else Some m))\<rparr>)"

subsection \<open>Hydration\<close>

text \<open>
  Modelled from the spec: \<open>Character.hydrate\<close> is missing from the source. The
  specification has hydration leave the entity "hydrated"; \<open>Player.hydrate\<close> assigns
  that flag nowhere, so the assignment is in the base-class call it starts with.
\<close>

definition Character_hydrate :: "'i player \<Rightarrow> 'i player" where
  "Character_hydrate p = p\<lparr>hydrated := True\<rparr>"

text \<open>
  Modelled from the spec: \<open>Character.equip\<close> is missing from the source. The
  specification has it put the item into the slot of the equipment mapping; whether it
  throws instead is the parameter \<open>Character_equip_error\<close>.
\<close>

definition Character_equip :: "'i classes \<Rightarrow> 'i \<Rightarrow> string \<Rightarrow> 'i player \<Rightarrow> error + 'i player" where
  "Character_equip cls item slot p =
     (case Character_equip_error cls item slot of
        Some e \<Rightarrow> Inl e
      | None \<Rightarrow>
          (case equipment p of
             EqMap m \<Rightarrow> Inr (p\<lparr>equipment := EqMap (AList.update slot item m)\<rparr>)
           | _ \<Rightarrow> Inl (TypeError ''this.equipment.set is not a function'')))"

text \<open>
  The body of the \<open>try\<close> block for one slot. An exception leaves the effects of the
  statements before it in place.
\<close>

definition try_slot ::
  "'i game_state \<Rightarrow> 'i classes \<Rightarrow> string \<Rightarrow> item_def \<Rightarrow> 'i player \<Rightarrow> 'i world \<Rightarrow> 'i outcome" where
  "try_slot st cls slot itemDef p w =
     (case ItemFactory_create st (getArea st (def_area itemDef)) (def_entityReference itemDef) of
        Inl e \<Rightarrow> Inl (e, p, w)
      | Inr newItem \<Rightarrow>
     (case Item_initializeInventory cls newItem (def_inventory itemDef) of
        Inl e \<Rightarrow> Inl (e, p, w)
      | Inr item1 \<Rightarrow>
     (case Item_hydrate cls item1 itemDef of
        Inl e \<Rightarrow> Inl (e, p, w)
      | Inr item2 \<Rightarrow>
     (case ItemManager_add st item2 of
        Some e \<Rightarrow> Inl (e, p, w)
      | None \<Rightarrow>
          let w1 = record_call (ItemManagerAdd item2) p w
          in (case Character_equip cls item2 slot p of
                Inl e \<Rightarrow> Inl (e, p, w1)
              | Inr p1 \<Rightarrow>
                  let w2 = record_call (Emit (OnItem item2) ''spawn'' []) p1 w1
                  in (case Item_emit cls item2 ''spawn'' of
                        Some e \<Rightarrow> Inl (e, p1, w2)
                      | None \<Rightarrow> Inr (p1, w2)))))))"

text \<open>
  One iteration of the loop over the slots: the \<open>try\<close> block and its \<open>catch\<close>. The
  handler reads \<open>e.message\<close> and logs it; when that read throws, the exception leaves
  the loop and \<open>hydrate\<close>.
\<close>

definition hydrate_slot ::
  "'i game_state \<Rightarrow> 'i classes \<Rightarrow> string \<Rightarrow> item_def \<Rightarrow> 'i player \<times> 'i world \<Rightarrow> 'i outcome" where
  "hydrate_slot st cls slot itemDef pw =
     (case try_slot st cls slot itemDef (fst pw) (snd pw) of
        Inr pw' \<Rightarrow> Inr pw'
      | Inl (e, p', w') \<Rightarrow>
          (case message e of
             Inl e' \<Rightarrow> Inl (e', p', w')
           | Inr m \<Rightarrow> Inr (p', w'\<lparr>errorLog := errorLog w' @ [m]\<rparr>)))"

fun hydrate_slots ::
  "'i game_state \<Rightarrow> 'i classes \<Rightarrow> (string \<times> item_def) list \<Rightarrow> 'i player \<times> 'i world \<Rightarrow> 'i outcome" where
  "hydrate_slots st cls [] pw = Inr pw"
| "hydrate_slots st cls ((slot, itemDef) # eqDefs) pw =
     (case hydrate_slot st cls slot itemDef pw of
        Inl e \<Rightarrow> Inl e
      | Inr pw' \<Rightarrow> hydrate_slots st cls eqDefs pw')"

text \<open>The equipment step of \<open>Player.hydrate\<close>.\<close>

definition hydrate_equipment ::
  "'i game_state \<Rightarrow> 'i classes \<Rightarrow> 'i player \<Rightarrow> 'i world \<Rightarrow> 'i outcome" where
  "hydrate_equipment st cls p w =
     (case equipment p of
        EqLegacy eqDefs \<Rightarrow> hydrate_slots st cls eqDefs (p\<lparr>equipment := EqMap []\<rparr>, w)
      | _ \<Rightarrow> Inr (p\<lparr>equipment := EqMap []\<rparr>, w))"

definition invalid_room_message :: "string \<Rightarrow> string \<Rightarrow> string" where
  "invalid_room_message n r = ''ERROR: Player '' @ n @ '' was saved to invalid room '' @ r @ ''.''"

text \<open>The room step of \<open>Player.hydrate\<close>.\<close>

definition hydrate_room :: "'i game_state \<Rightarrow> 'i player \<Rightarrow> 'i world \<Rightarrow> 'i outcome" where
  "hydrate_room st p w =
     (case room p of
        RoomId s \<Rightarrow>
          (case getRoom st s of
             Some r \<Rightarrow> moveTo (Some r) Noop (p\<lparr>room := RoomRef r\<rparr>) w
           | None \<Rightarrow>
               let w1 = w\<lparr>errorLog := errorLog w @ [invalid_room_message (name p) s]\<rparr>
               in (case getPlaceholderArea st of
                     None \<Rightarrow> Inl (TypeError ''getPlaceholderArea(...) is undefined'', p, w1)
                   | Some a \<Rightarrow>
                       let r = getRoomById st a ''placeholder''
                       in moveTo r Noop (p\<lparr>room := room_value r\<rparr>) w1))
      | _ \<Rightarrow> Inr (p, w))"

text \<open>
  \<open>Player.hydrate\<close>. The calls on the quest tracker and on the inventory are outside
  any \<open>try\<close> block and are taken to return. The account is whatever the account manager
  returns for the identifier.
\<close>

definition hydrate :: "'i game_state \<Rightarrow> 'i classes \<Rightarrow> 'i player \<Rightarrow> 'i world \<Rightarrow> 'i outcome" where
  "hydrate st cls p w =
     (let p1 = Character_hydrate p;
          w1 = record_call QuestTrackerHydrate p1 w;
          p2 = p1\<lparr>questTracker := QuestTracker_hydrate cls (questTracker p1)\<rparr>;
          p3 = (case account p2 of
                  AccountId s \<Rightarrow> p2\<lparr>account := getAccount st s\<rparr>
                | _ \<Rightarrow> p2);
          w3 = record_call InventoryHydrate p3 w1
      in (case hydrate_equipment st cls p3 w3 of
            Inl e \<Rightarrow> Inl e
          | Inr (p4, w4) \<Rightarrow> hydrate_room st p4 w4))"

subsection \<open>Serialization\<close>

text \<open>
  \<open>Player.serialize\<close>. The base-class result is computed first; then \<open>this.account.name\<close>
  is read, which is a TypeError on null and on undefined, and \<open>undefined\<close> on a string.
\<close>

definition serialize :: "'i classes \<Rightarrow> 'i player \<Rightarrow> error + snapshot" where
  "serialize cls p =
     (case Character_serialize cls p of
        Inl e \<Rightarrow> Inl e
      | Inr base \<Rightarrow>
          (case account p of
             AccountNull \<Rightarrow> Inl (TypeError ''Cannot read properties of null (reading 'name')'')
           | AccountUndefined \<Rightarrow>
               Inl (TypeError ''Cannot read properties of undefined (reading 'name')'')
           | acc \<Rightarrow>
               Inr \<lparr>s_base = base,
                    s_account = (case acc of AccountRef a \<Rightarrow> Some (account_name a) | _ \<Rightarrow> None),
                    s_experience = experience p,
                    s_inventoryMax = inventoryMax p,
                    s_password = password p,
                    s_prompt = prompt p,
                    s_quests = Some (QuestTracker_serialize cls (questTracker p)),
                    s_role = role p,
                    s_equipment =
                      (case equipment p of
                         EqMap m \<Rightarrow> Some (map (\<lambda>(slot, item). (slot, Item_serialize cls item)) m)
                       | _ \<Rightarrow> None)\<rparr>))"

subsection \<open>Prompt interpolation\<close>

definition is_token_char :: "char \<Rightarrow> bool" where
  "is_token_char c = (c = CHR ''.'' \<or> (97 \<le> (of_char c :: nat) \<and> (of_char c :: nat) \<le> 122))"

text \<open>
  The first match of \<open>/%([a-z\.]+)%/\<close>: the text before it, the captured token, the
  text after it. A percent sign starts a match exactly when the longest run of token
  characters after it is not empty and ends at a percent sign.
\<close>

fun match_token :: "string \<Rightarrow> (string \<times> string \<times> string) option" where
  "match_token [] = None"
| "match_token (c # cs) =
     (let tok = takeWhile is_token_char cs;
          rest = dropWhile is_token_char cs
      in if c = CHR ''%'' \<and> tok \<noteq> [] \<and> rest \<noteq> [] \<and> hd rest = CHR ''%''
         then Some ([], tok, tl rest)
         else (case match_token cs of
                 None \<Rightarrow> None
               | Some (b, t, a) \<Rightarrow> Some (c # b, t, a)))"

text \<open>\<open>token.split('.')\<close>.\<close>

fun split_dot :: "string \<Rightarrow> string list" where
  "split_dot [] = [[]]"
| "split_dot (c # cs) =
     (if c = CHR ''.'' then [] # split_dot cs
      else (case split_dot cs of
              [] \<Rightarrow> [[c]]
            | x # xs \<Rightarrow> (c # x) # xs))"

fun truthy :: "jsval \<Rightarrow> bool" where
  "truthy JUndefined = False"
| "truthy JNull = False"
| "truthy (JBool b) = b"
| "truthy (JNum n) = (n \<noteq> 0)"
| "truthy (JStr s) = (s \<noteq> [])"
| "truthy (JObj kvs) = True"

text \<open>
  \<open>obj[index]\<close> on own properties, and \<open>length\<close> of a string. Properties inherited
  from the prototypes (of the names a token can spell, \<open>constructor\<close>) are not covered.
\<close>

fun get_prop :: "jsval \<Rightarrow> string \<Rightarrow> jsval" where
  "get_prop (JObj kvs) k = (case map_of kvs k of None \<Rightarrow> JUndefined | Some v \<Rightarrow> v)"
| "get_prop (JStr s) k = (if k = ''length'' then JNum (int (length s)) else JUndefined)"
| "get_prop v k = JUndefined"

fun show_nat :: "nat \<Rightarrow> string" where
  "show_nat n =
     (if n < 10 then [''0123456789'' ! n]
      else show_nat (n div 10) @ [''0123456789'' ! (n mod 10)])"

definition show_int :: "int \<Rightarrow> string" where
  "show_int i = (if i < 0 then CHR ''-'' # show_nat (nat (- i)) else show_nat (nat i))"

fun to_string :: "jsval \<Rightarrow> string" where
  "to_string JUndefined = ''undefined''"
| "to_string JNull = ''null''"
| "to_string (JBool b) = (if b then ''true'' else ''false'')"
| "to_string (JNum n) = show_int n"
| "to_string (JStr s) = s"
| "to_string (JObj kvs) = ''[object Object]''"

text \<open>The first occurrence of a text: what is before it and what is after it.\<close>

fun find_first :: "string \<Rightarrow> string \<Rightarrow> (string \<times> string) option" where
  "find_first pat [] = (if pat = [] then Some ([], []) else None)"
| "find_first pat (c # cs) =
     (if take (length pat) (c # cs) = pat then Some ([], drop (length pat) (c # cs))
      else (case find_first pat cs of
              None \<Rightarrow> None
            | Some (b, a) \<Rightarrow> Some (c # b, a)))"

text \<open>
  The replacement text of \<open>String.prototype.replace\<close> for a string pattern: a dollar
  sign followed by a dollar sign, an ampersand, a backquote or a quote is expanded.
\<close>

fun get_substitution :: "string \<Rightarrow> string \<Rightarrow> string \<Rightarrow> string \<Rightarrow> string" where
  "get_substitution m b a [] = []"
| "get_substitution m b a [c] = [c]"
| "get_substitution m b a (c # d # cs) =
     (if c = CHR ''$'' \<and> d = CHR ''$'' then CHR ''$'' # get_substitution m b a cs
      else if c = CHR ''$'' \<and> d = CHR ''&'' then m @ get_substitution m b a cs
      else if c = CHR ''$'' \<and> d = CHR 0x60 then b @ get_substitution m b a cs
      else if c = CHR ''$'' \<and> d = CHR 0x27 then a @ get_substitution m b a cs
      else c # get_substitution m b a (d # cs))"

definition js_replace :: "string \<Rightarrow> string \<Rightarrow> string \<Rightarrow> string" where
  "js_replace s pat rep =
     (case find_first pat s of
        None \<Rightarrow> s
      | Some (b, a) \<Rightarrow> b @ get_substitution pat b a rep @ a)"

text \<open>
  The dictionary the tokens are resolved in. An entry of \<open>attributes\<close> holds what
  \<open>getAttribute\<close>, \<open>getMaxAttribute\<close> and \<open>getBaseAttribute\<close> return for its name.
\<close>

definition attributeData :: "'i player \<Rightarrow> (string \<times> jsval) list" where
  "attributeData p =
     foldl (\<lambda>obj (attr, v).
              AList.update attr
                (JObj [(''current'', JNum (attr_current v)),
                       (''max'', JNum (attr_max v)),
                       (''base'', JNum (attr_base v))]) obj)
           [] (attributes p)"

definition object_assign :: "(string \<times> jsval) list \<Rightarrow> (string \<times> jsval) list \<Rightarrow> (string \<times> jsval) list" where
  "object_assign target source = foldl (\<lambda>obj (k, v). AList.update k v obj) target source"

definition resolve_token :: "(string \<times> jsval) list \<Rightarrow> string \<Rightarrow> jsval" where
  "resolve_token promptData token =
     foldl (\<lambda>obj index. if truthy obj then get_prop obj index else obj)
           (JObj promptData) (split_dot token)"

text \<open>The \<open>while\<close> loop of \<open>interpolatePrompt\<close>; \<open>None\<close> is a loop that never ends.\<close>

partial_function (option) interpolate_loop :: "(string \<times> jsval) list \<Rightarrow> string \<Rightarrow> string option" where
  "interpolate_loop promptData promptStr =
     (case match_token promptStr of
        None \<Rightarrow> Some promptStr
      | Some (before, token, after) \<Rightarrow>
          let v = resolve_token promptData token;
              promptValue = (if v = JNull \<or> v = JUndefined then JStr ''invalid-token'' else v)
          in interpolate_loop promptData
               (js_replace promptStr (CHR ''%'' # token @ ''%'') (to_string promptValue)))"

definition interpolatePrompt :: "'i player \<Rightarrow> string \<Rightarrow> (string \<times> jsval) list \<Rightarrow> string option" where
  "interpolatePrompt p promptStr extraData =
     interpolate_loop (object_assign (attributeData p) extraData) promptStr"

subsection \<open>Concrete inputs\<close>

definition bob :: "item_def player" where
  "bob = \<lparr>pid = 1, name = ''bob'', account = AccountRef \<lparr>account_name = ''bobs''\<rparr>,
          experience = 0, password = ''pw'', prompt = ''> '', role = 0, room = RoomRef 3,
          equipment = EqMap [],
          attributes = [(''hp'', \<lparr>attr_current = 5, attr_max = 10, attr_base = 10\<rparr>)],
          questTracker = \<lparr>q_active = [], q_completed = []\<rparr>, commandQueue = [],
          inventoryMax = Some 20, listenerCount = (\<lambda>ev. 0), hydrated = True, pruned = False\<rparr>"

definition limbo :: "item_def world" where
  "limbo = \<lparr>members = (\<lambda>r. if r = 3 then {1} else {}), trace = [], errorLog = []\<rparr>"

definition town :: "item_def game_state" where
  "town = \<lparr>getAccount = (\<lambda>a. if a = ''bobs'' then AccountRef \<lparr>account_name = ''bobs''\<rparr>
                                else AccountUndefined),
           getArea = (\<lambda>a. if a = ''town'' then Some 0 else None),
           getPlaceholderArea = Some 9,
           getRoomById = (\<lambda>a r. if a = 9 \<and> r = ''placeholder'' then Some 7 else None),
           ItemFactory_create =
             (\<lambda>area ref. case area of
                            None \<Rightarrow> Inl (Thrown ''no such area'')
                          | Some a \<Rightarrow> Inr \<lparr>def_area = ''town'', def_entityReference = ref,
                                           def_inventory = [], def_content = []\<rparr>),
           ItemManager_add = (\<lambda>i. None),
           getRoom = (\<lambda>r. if r = ''town:square'' then Some 3 else None)\<rparr>"

definition rules :: "item_def classes" where
  "rules = \<lparr>CommandQueue_enqueue = (\<lambda>q ex lag. (length q, q @ [(ex, lag)])),
            Item_initializeInventory = (\<lambda>i inv. Inr (i\<lparr>def_inventory := inv\<rparr>)),
            Item_hydrate = (\<lambda>i d. Inr (i\<lparr>def_content := def_content d\<rparr>)),
            Item_emit = (\<lambda>i ev. None),
            Item_serialize = (\<lambda>i. i),
            Character_equip_error = (\<lambda>i slot. None),
            Character_serialize =
              (\<lambda>p. case room p of
                      RoomRef r \<Rightarrow> Inr \<lparr>b_name = name p,
                                        b_room = Some (if r = 3 then ''town:square'' else ''limbo:placeholder'')\<rparr>
                    | RoomId s \<Rightarrow> Inr \<lparr>b_name = name p, b_room = None\<rparr>
                    | RoomNull \<Rightarrow>
                        Inl (TypeError ''Cannot read properties of null (reading 'entityReference')'')),
            QuestTracker_hydrate = (\<lambda>q. q),
            QuestTracker_serialize = (\<lambda>q. q),
            Room_entityReference = (\<lambda>r. if r = 3 then ''town:square'' else ''limbo:placeholder''),
            Config_defaultMaxPlayerInventory = None,
            PlayerRoles_PLAYER = 0\<rparr>"

subsection \<open>Reading an outcome\<close>

definition outcome_world :: "'i outcome \<Rightarrow> 'i world" where
  "outcome_world r = (case r of Inl (e, p, w) \<Rightarrow> w | Inr (p, w) \<Rightarrow> w)"

definition result_value ::
  "(error \<times> 'i player \<times> 'i world) + (jsval \<times> 'i player \<times> 'i world) \<Rightarrow> jsval option" where
  "result_value r = (case r of Inl (e, p, w) \<Rightarrow> None | Inr (v, p, w) \<Rightarrow> Some v)"

definition result_world ::
  "(error \<times> 'i player \<times> 'i world) + (jsval \<times> 'i player \<times> 'i world) \<Rightarrow> 'i world" where
  "result_world r = (case r of Inl (e, p, w) \<Rightarrow> w | Inr (v, p, w) \<Rightarrow> w)"

text \<open>How often a call occurs in the trace.\<close>

definition published :: "'i action \<Rightarrow> 'i world \<Rightarrow> nat" where
  "published a w = length (filter (\<lambda>e. fst e = a) (trace w))"

subsection \<open>Notions used in the statements\<close>

text \<open>
  What the \<open>try\<close> block does for one slot, seen from outside: the item it equips, or
  the exception it throws.
\<close>

definition slot_result :: "'i game_state \<Rightarrow> 'i classes \<Rightarrow> string \<Rightarrow> item_def \<Rightarrow> error + 'i" where
  "slot_result st cls slot itemDef =
     (case ItemFactory_create st (getArea st (def_area itemDef)) (def_entityReference itemDef) of
        Inl e \<Rightarrow> Inl e
      | Inr newItem \<Rightarrow>
     (case Item_initializeInventory cls newItem (def_inventory itemDef) of
        Inl e \<Rightarrow> Inl e
      | Inr item1 \<Rightarrow>
     (case Item_hydrate cls item1 itemDef of
        Inl e \<Rightarrow> Inl e
      | Inr item2 \<Rightarrow>
     (case ItemManager_add st item2 of
        Some e \<Rightarrow> Inl e
      | None \<Rightarrow>
     (case Character_equip_error cls item2 slot of
        Some e \<Rightarrow> Inl e
      | None \<Rightarrow>
     (case Item_emit cls item2 ''spawn'' of
        Some e \<Rightarrow> Inl e
      | None \<Rightarrow> Inr item2))))))"

text \<open>Whether the handler can log what a slot throws, if it throws.\<close>

definition slot_caught :: "'i game_state \<Rightarrow> 'i classes \<Rightarrow> string \<Rightarrow> item_def \<Rightarrow> bool" where
  "slot_caught st cls slot d =
     (case slot_result st cls slot d of
        Inr item \<Rightarrow> True
      | Inl e \<Rightarrow> (case message e of Inl e' \<Rightarrow> False | Inr m \<Rightarrow> True))"

text \<open>
  The equipment step runs through all its slots: none of them throws null or undefined.
\<close>

definition equipment_completes :: "'i game_state \<Rightarrow> 'i classes \<Rightarrow> 'i player \<Rightarrow> bool" where
  "equipment_completes st cls p =
     (case equipment p of
        EqLegacy eqDefs \<Rightarrow> list_all (\<lambda>(slot, d). slot_caught st cls slot d) eqDefs
      | _ \<Rightarrow> True)"

text \<open>The messages of the slots whose reconstruction throws, in the order of the slots.\<close>

definition slot_errors :: "'i game_state \<Rightarrow> 'i classes \<Rightarrow> (string \<times> item_def) list \<Rightarrow> string list" where
  "slot_errors st cls eqDefs =
     concat (map (\<lambda>(slot, d). case slot_result st cls slot d of
                                 Inl e \<Rightarrow> (case message e of Inl e' \<Rightarrow> [] | Inr m \<Rightarrow> [m])
                               | Inr item \<Rightarrow> []) eqDefs)"

definition equipment_errors :: "'i game_state \<Rightarrow> 'i classes \<Rightarrow> 'i player \<Rightarrow> string list" where
  "equipment_errors st cls p =
     (case equipment p of EqLegacy eqDefs \<Rightarrow> slot_errors st cls eqDefs | _ \<Rightarrow> [])"

text \<open>The entries of a snapshot with their defaults filled in.\<close>

definition snapshot_equipment :: "snapshot \<Rightarrow> (string \<times> item_def) list" where
  "snapshot_equipment data = (case s_equipment data of None \<Rightarrow> [] | Some defs \<Rightarrow> defs)"

definition snapshot_quests :: "snapshot \<Rightarrow> quest_data" where
  "snapshot_quests data =
     (case s_quests data of None \<Rightarrow> \<lparr>q_active = [], q_completed = []\<rparr> | Some q \<Rightarrow> q)"

text \<open>Constructing a player from a snapshot, hydrating it and serializing it again.\<close>

definition round_trip ::
  "'i game_state \<Rightarrow> 'i classes \<Rightarrow> nat \<Rightarrow> snapshot \<Rightarrow> 'i world \<Rightarrow> error + snapshot" where
  "round_trip st cls ident data w =
     (case hydrate st cls (Player_new cls data (Character_new ident data)) w of
        Inl (e, p, w') \<Rightarrow> Inl e
      | Inr (p', w') \<Rightarrow> serialize cls p')"

text \<open>The calls \<open>moveTo\<close> makes on a player that is already in the room it is sent to.\<close>

definition enter_calls :: "room_ref \<Rightarrow> 'i player \<Rightarrow> ('i action \<times> room_field) list" where
  "enter_calls r p =
     [(AddPlayer r, RoomRef r),
      (Call Noop, RoomRef r),
      (Emit (OnRoom r) ''playerEnter'' [ArgPlayer, ArgRoom (RoomRef r)], RoomRef r)] @
     (if hydrated p \<and> \<not> pruned p
      then [(Emit OnPlayer ''enterRoom'' [ArgRoom (RoomRef r)], RoomRef r),
            (Emit OnQuestTracker ''enterRoom'' [ArgRoom (RoomRef r)], RoomRef r)]
      else [])"

definition saved_bob :: snapshot where
  "saved_bob = \<lparr>s_base = \<lparr>b_name = ''bob'', b_room = Some ''town:square''\<rparr>,
                s_account = Some ''bobs'', s_experience = 12, s_inventoryMax = None,
                s_password = ''pw'', s_prompt = [],
                s_quests = Some \<lparr>q_active = [''rats''], q_completed = [''intro'']\<rparr>,
                s_role = 0,
                s_equipment = Some [(''head'', \<lparr>def_area = ''town'', def_entityReference = ''town:helm'',
                                               def_inventory = [], def_content = ''dented''\<rparr>),
                                    (''feet'', \<lparr>def_area = ''town'', def_entityReference = ''town:boots'',
                                               def_inventory = [], def_content = []\<rparr>)]\<rparr>"

text \<open>A player as persisted, with one descriptor that names an area that is gone.\<close>

definition cold_bob :: "item_def player" where
  "cold_bob = bob\<lparr>hydrated := False, account := AccountId ''bobs'', room := RoomId ''nowhere'',
                  equipment := EqLegacy
                    [(''head'', \<lparr>def_area = ''atlantis'', def_entityReference = ''atlantis:crown'',
                                def_inventory = [], def_content = []\<rparr>),
                     (''feet'', \<lparr>def_area = ''town'', def_entityReference = ''town:boots'',
                                def_inventory = [], def_content = []\<rparr>)]\<rparr>"

text \<open>The same town with an item factory that throws \<open>undefined\<close> for an area that is gone.\<close>

definition cursed :: "item_def game_state" where
  "cursed = town\<lparr>ItemFactory_create :=
              (\<lambda>area ref. case area of
                             None \<Rightarrow> Inl ThrownUndefined
                           | Some a \<Rightarrow> Inr \<lparr>def_area = ''town'', def_entityReference = ref,
                                            def_inventory = [], def_content = []\<rparr>)\<rparr>"

text \<open>A persisted player with a room but no account.\<close>

definition squatter :: snapshot where
  "squatter = saved_bob\<lparr>s_account := None\<rparr>"

section \<open>Properties\<close>

lemma members_record_call: "members (record_call a p w) = members w"
  by (simp add: record_call_def)

lemma errorLog_record_call: "errorLog (record_call a p w) = errorLog w"
  by (simp add: record_call_def)

text \<open>
  C4. On a player that is pruned or not hydrated, \<open>emit\<close> and \<open>save\<close> return without
  any effect: the world, and with it the record of every call made on a subscriber or
  on the quest tracker, is the one they were given, and the result is not an exception.
\<close>

theorem C4_inert_player_emits_nothing:
  assumes "pruned p \<or> \<not> hydrated p"
  shows "emit ev args p w = Inr w \<and> save cb p w = Inr w"
  using assms by (auto simp: emit_def save_def)

theorem C4_inert_player_witness:
  "emit ''hit'' [ArgData ''x''] (bob\<lparr>pruned := True\<rparr>) limbo = Inr limbo
   \<and> save (UserFn 0) (bob\<lparr>pruned := True\<rparr>) limbo = Inr limbo"
  by (rule C4_inert_player_emits_nothing) (simp add: bob_def)

text \<open>
  C5. As stated the claim fails for one event: \<open>error\<close>, published on a player that has
  no listener for it, is thrown by the platform's \<open>emit\<close>, and \<open>Player.emit\<close> is left
  before the quest tracker is reached. Here a hydrated player that is not pruned and
  has no listeners publishes \<open>error\<close>: the result is the exception, in a world without a
  single recorded call.
\<close>

theorem C5_unhandled_error_not_relayed:
  "emit ''error'' [ArgData ''boom''] bob limbo = Inl (Thrown ''Unhandled error.'', limbo)
   \<and> trace limbo = [] \<and> hydrated bob \<and> \<not> pruned bob"
  by (simp add: emit_def EventEmitter_emit_def bob_def limbo_def)

text \<open>
  C5, amended. On a player that is hydrated and not pruned, \<open>emit\<close> makes exactly two
  calls, in this order: the event on the player's own bus, then the same event name with
  the same arguments on the quest tracker's bus; nothing else changes. The one exception
  is the event \<open>error\<close> on a player with no listener for it, which is thrown and
  forwarded nowhere.
\<close>

theorem C5_emit_relays_to_quest_tracker:
  assumes "hydrated p" and "\<not> pruned p"
  shows "emit ev args p w =
           (if ev = ''error'' \<and> listenerCount p ev = 0 then Inl (unhandled args, w)
            else Inr (w\<lparr>trace := trace w @ [(Emit OnPlayer ev args, room p),
                                               (Emit OnQuestTracker ev args, room p)]\<rparr>))"
  using assms
  by (simp add: emit_def EventEmitter_emit_def QuestTracker_emit_def record_call_def)

theorem C5_emit_relays_witness:
  "emit ''hit'' [ArgData ''x'', ArgIndex 2] bob limbo =
     Inr (limbo\<lparr>trace := [(Emit OnPlayer ''hit'' [ArgData ''x'', ArgIndex 2], RoomRef 3),
                             (Emit OnQuestTracker ''hit'' [ArgData ''x'', ArgIndex 2], RoomRef 3)]\<rparr>)"
  using C5_emit_relays_to_quest_tracker [of bob "''hit''" "[ArgData ''x'', ArgIndex 2]" limbo]
  by (simp add: bob_def limbo_def)

text \<open>
  C9. As stated the claim fails: the caller does not get the index (the body binds it
  and has no \<open>return\<close> statement), and a player that is pruned or not hydrated publishes
  nothing. Here the value returned for a hydrated player is not the index that
  \<open>enqueue\<close> produced, and a player that is not hydrated publishes \<open>commandQueued\<close> zero
  times.
\<close>

theorem C9_returns_undefined:
  "result_value (queueCommand rules 7 1 bob limbo)
     \<noteq> Some (JNum (int (fst (CommandQueue_enqueue rules (commandQueue bob) 7 1))))
   \<and> published (Emit OnPlayer ''commandQueued''
                   [ArgIndex (fst (CommandQueue_enqueue rules (commandQueue cold_bob) 7 1))])
        (result_world (queueCommand rules 7 1 cold_bob limbo)) = 0"
  by (simp add: queueCommand_def rules_def bob_def cold_bob_def limbo_def Let_def emit_def
      EventEmitter_emit_def QuestTracker_emit_def record_call_def published_def
      result_value_def result_world_def)

text \<open>
  C9, amended. For every player, \<open>queueCommand\<close> enqueues the command and comes back; a
  player that is hydrated and not pruned publishes \<open>commandQueued\<close> with exactly the index
  that \<open>enqueue\<close> returned (relayed to the quest tracker), and any other player publishes
  nothing. What the call evaluates to is left open.
\<close>

theorem C9_queueCommand:
  assumes "CommandQueue_enqueue cls (commandQueue p) executable lag = (index, q)"
  shows "\<exists>v. queueCommand cls executable lag p w =
           Inr (v, p\<lparr>commandQueue := q\<rparr>,
                w\<lparr>trace := trace w @
                     (if hydrated p \<and> \<not> pruned p
                      then [(Emit OnPlayer ''commandQueued'' [ArgIndex index], room p),
                            (Emit OnQuestTracker ''commandQueued'' [ArgIndex index], room p)]
                      else [])\<rparr>)"
  using assms
  by (simp add: queueCommand_def emit_def EventEmitter_emit_def QuestTracker_emit_def
      record_call_def Let_def)

theorem C9_queueCommand_witness:
  "\<exists>v. queueCommand rules 7 1 bob limbo =
     Inr (v, bob\<lparr>commandQueue := [(7, 1)]\<rparr>,
          limbo\<lparr>trace := [(Emit OnPlayer ''commandQueued'' [ArgIndex 0], RoomRef 3),
                            (Emit OnQuestTracker ''commandQueued'' [ArgIndex 0], RoomRef 3)]\<rparr>)"
  using C9_queueCommand [of rules bob 7 1 0 "[(7, 1)]" limbo]
  by (simp add: rules_def bob_def limbo_def)

subsection \<open>Room transition\<close>

lemma moveTo_between_rooms:
  assumes "room p = RoomRef a" and "a \<noteq> b"
  shows "moveTo (Some b) onMoved p w =
     Inr (p\<lparr>room := RoomRef b\<rparr>,
          w\<lparr>members := (members w)(a := members w a - {pid p}, b := insert (pid p) (members w b)),
            trace := trace w @
              [(Emit (OnRoom a) ''playerLeave'' [ArgPlayer, ArgRoom (RoomRef b)], RoomRef a),
               (RemovePlayer a, RoomRef a),
               (AddPlayer b, RoomRef b),
               (Call onMoved, RoomRef b),
               (Emit (OnRoom b) ''playerEnter'' [ArgPlayer, ArgRoom (RoomRef a)], RoomRef b)] @
              (if hydrated p \<and> \<not> pruned p
               then [(Emit OnPlayer ''enterRoom'' [ArgRoom (RoomRef b)], RoomRef b),
                     (Emit OnQuestTracker ''enterRoom'' [ArgRoom (RoomRef b)], RoomRef b)]
               else [])\<rparr>)"
  using assms
  by (simp add: moveTo_def Room_emit_def Room_addPlayer_def Room_removePlayer_def emit_def
      EventEmitter_emit_def QuestTracker_emit_def record_call_def Let_def)

text \<open>
  C2. As stated the claim fails: the last step goes through \<open>Player.emit\<close>, whose guard
  suppresses \<open>enterRoom\<close> on a player that is pruned or not hydrated. Here a player
  that occupies room 3 is moved to room 4, once pruned and once not hydrated, and
  \<open>enterRoom\<close> is published zero times.
\<close>

theorem C2_pruned_player_no_enterRoom:
  "published (Emit OnPlayer ''enterRoom'' [ArgRoom (RoomRef 4)])
     (outcome_world (moveTo (Some 4) Noop (bob\<lparr>pruned := True\<rparr>) limbo)) = 0
   \<and> published (Emit OnPlayer ''enterRoom'' [ArgRoom (RoomRef 4)])
     (outcome_world (moveTo (Some 4) Noop (bob\<lparr>hydrated := False\<rparr>) limbo)) = 0
   \<and> room bob = RoomRef 3 \<and> pid bob \<in> members limbo 3"
  by (simp add: moveTo_between_rooms [of _ 3 4] bob_def limbo_def published_def outcome_world_def)

text \<open>
  C2, amended. For every player in a room \<open>a\<close> moved to another room \<open>b\<close>, the calls
  made are, in this order: \<open>playerLeave\<close> on \<open>a\<close> (player, \<open>b\<close>) and the removal from
  \<open>a\<close>, both while \<open>this.room\<close> is still \<open>a\<close>; then, with \<open>this.room\<close> already \<open>b\<close>, the
  addition to \<open>b\<close>, the callback, and \<open>playerEnter\<close> on \<open>b\<close> (player, \<open>a\<close>); then, only
  when the player is hydrated and not pruned, \<open>enterRoom\<close> (\<open>b\<close>) on the player and its
  relay to the quest tracker. Each call is made once. Afterwards \<open>a\<close> does not hold
  the player, \<open>b\<close> does, and no other room has changed.
\<close>

theorem C2_moveTo_protocol:
  assumes "room p = RoomRef a" and "a \<noteq> b"
  shows "\<exists>w'. moveTo (Some b) onMoved p w = Inr (p\<lparr>room := RoomRef b\<rparr>, w') \<and>
     trace w' = trace w @
        [(Emit (OnRoom a) ''playerLeave'' [ArgPlayer, ArgRoom (RoomRef b)], RoomRef a),
         (RemovePlayer a, RoomRef a),
         (AddPlayer b, RoomRef b),
         (Call onMoved, RoomRef b),
         (Emit (OnRoom b) ''playerEnter'' [ArgPlayer, ArgRoom (RoomRef a)], RoomRef b)] @
        (if hydrated p \<and> \<not> pruned p
         then [(Emit OnPlayer ''enterRoom'' [ArgRoom (RoomRef b)], RoomRef b),
               (Emit OnQuestTracker ''enterRoom'' [ArgRoom (RoomRef b)], RoomRef b)]
         else []) \<and>
     pid p \<notin> members w' a \<and> pid p \<in> members w' b \<and>
     (\<forall>r. r \<noteq> a \<longrightarrow> r \<noteq> b \<longrightarrow> members w' r = members w r) \<and>
     errorLog w' = errorLog w"
  using assms by (simp add: moveTo_between_rooms)

theorem C2_moveTo_protocol_witness:
  "\<exists>w'. moveTo (Some 4) (UserFn 5) bob limbo = Inr (bob\<lparr>room := RoomRef 4\<rparr>, w') \<and>
     trace w' =
        [(Emit (OnRoom 3) ''playerLeave'' [ArgPlayer, ArgRoom (RoomRef 4)], RoomRef 3),
         (RemovePlayer 3, RoomRef 3),
         (AddPlayer 4, RoomRef 4),
         (Call (UserFn 5), RoomRef 4),
         (Emit (OnRoom 4) ''playerEnter'' [ArgPlayer, ArgRoom (RoomRef 3)], RoomRef 4),
         (Emit OnPlayer ''enterRoom'' [ArgRoom (RoomRef 4)], RoomRef 4),
         (Emit OnQuestTracker ''enterRoom'' [ArgRoom (RoomRef 4)], RoomRef 4)] \<and>
     1 \<notin> members w' 3 \<and> 1 \<in> members w' 4"
  using C2_moveTo_protocol [of bob 3 4 "UserFn 5" limbo]
  by (auto simp: bob_def limbo_def)

text \<open>
  C3. Let no room other than the one in \<open>this.room\<close> hold the player (the invariant of
  the data model; the player may be in no room at all). Then \<open>moveTo\<close> to a room \<open>b\<close>
  completes and leaves the player in the membership set of \<open>b\<close> and of no other room,
  with \<open>this.room\<close> equal to \<open>b\<close>: whether the player was in another room, in no room, or
  already in \<open>b\<close>. The one call that does not complete is on a player whose \<open>room\<close> is
  still a non-empty string, which the second hypothesis excludes. As everywhere here,
  the subscribers and the callback are observers: a callback that moves the player
  again is the caller's responsibility.
\<close>

theorem C3_moveTo_membership:
  assumes "\<forall>r. pid p \<in> members w r \<longrightarrow> room p = RoomRef r"
    and "\<forall>s. room p = RoomId s \<longrightarrow> s = []"
  shows "\<exists>p' w'. moveTo (Some b) onMoved p w = Inr (p', w') \<and> pid p' = pid p \<and>
           room p' = RoomRef b \<and> (\<forall>r. pid p \<in> members w' r \<longleftrightarrow> r = b)"
  using assms
  by (cases "room p")
     (auto simp: moveTo_def Room_emit_def Room_addPlayer_def Room_removePlayer_def emit_def
      EventEmitter_emit_def QuestTracker_emit_def record_call_def Let_def)

theorem C3_moveTo_membership_witness:
  "\<exists>p' w'. moveTo (Some 4) Noop bob limbo = Inr (p', w') \<and> pid p' = pid bob \<and>
           room p' = RoomRef 4 \<and> (\<forall>r. pid bob \<in> members w' r \<longleftrightarrow> r = 4)"
  by (rule C3_moveTo_membership) (simp_all add: bob_def limbo_def)

subsection \<open>Serialization\<close>

text \<open>
  C10. \<open>serialize\<close> on a player whose \<open>account\<close> is null returns no snapshot: it throws.
  When the base-class serialization returns, the exception is the TypeError of reading
  \<open>name\<close> from null. The witness is a player constructed from data that has a room
  but no account, and not yet hydrated: the base class returns and the read throws.
\<close>

theorem C10_serialize_null_account:
  assumes "account p = AccountNull"
  shows "(\<exists>e. serialize cls p = Inl e) \<and>
         (\<forall>base. Character_serialize cls p = Inr base \<longrightarrow>
            serialize cls p = Inl (TypeError ''Cannot read properties of null (reading 'name')''))"
  using assms by (auto simp: serialize_def split: sum.splits)

theorem C10_serialize_null_account_witness:
  "account (Player_new rules squatter (Character_new 2 squatter) :: item_def player) = AccountNull \<and>
   Character_serialize rules (Player_new rules squatter (Character_new 2 squatter))
     = Inr \<lparr>b_name = ''bob'', b_room = None\<rparr> \<and>
   serialize rules (Player_new rules squatter (Character_new 2 squatter))
     = Inl (TypeError ''Cannot read properties of null (reading 'name')'')"
proof -
  have a: "account (Player_new rules squatter (Character_new 2 squatter) :: item_def player) = AccountNull"
    by (simp add: Player_new_def squatter_def saved_bob_def Let_def)
  have b: "Character_serialize rules (Player_new rules squatter (Character_new 2 squatter))
     = Inr \<lparr>b_name = ''bob'', b_room = None\<rparr>"
    by (simp add: Player_new_def Character_new_def squatter_def saved_bob_def rules_def Let_def)
  from C10_serialize_null_account [OF a, of rules] a b show ?thesis by simp
qed

subsection \<open>Prompt interpolation\<close>

lemma match_hp_current:
  "match_token ''%hp.current% / %hp.max%'' = Some ([], ''hp.current'', '' / %hp.max%'')"
  by code_simp

lemma match_hp_max: "match_token ''5 / %hp.max%'' = Some (''5 / '', ''hp.max'', [])"
  by code_simp

lemma match_done: "match_token ''5 / 10'' = None"
  by code_simp

lemma match_unknown: "match_token ''%unknown.path%'' = Some ([], ''unknown.path'', [])"
  by code_simp

lemma match_invalid: "match_token ''invalid-token'' = None"
  by code_simp

lemma split_hp_current: "split_dot ''hp.current'' = [''hp'', ''current'']"
  by code_simp

lemma split_hp_max: "split_dot ''hp.max'' = [''hp'', ''max'']"
  by code_simp

lemma split_unknown: "split_dot ''unknown.path'' = [''unknown'', ''path'']"
  by code_simp

lemma replace_hp_current:
  "js_replace ''%hp.current% / %hp.max%'' ''%hp.current%'' (to_string (JNum 5)) = ''5 / %hp.max%''"
  by code_simp

lemma replace_hp_max:
  "js_replace ''5 / %hp.max%'' ''%hp.max%'' (to_string (JNum 10)) = ''5 / 10''"
  by code_simp

lemma replace_unknown:
  "js_replace ''%unknown.path%'' ''%unknown.path%'' ''invalid-token'' = ''invalid-token''"
  by code_simp

lemma map_of_foldl_update:
  "distinct (map fst xs) \<Longrightarrow>
   map_of (foldl (\<lambda>obj (attr, v). AList.update attr (f v) obj) acc xs) k =
     (case map_of xs k of None \<Rightarrow> map_of acc k | Some v \<Rightarrow> Some (f v))"
proof (induction xs arbitrary: acc)
  case Nil
  then show ?case by simp
next
  case (Cons x xs)
  obtain a v where x: "x = (a, v)" by (cases x)
  from Cons.prems have d: "distinct (map fst xs)" and n: "a \<notin> fst ` set xs"
    by (auto simp: x)
  have "map_of xs a = None" using n by (simp add: map_of_eq_None_iff)
  then show ?case
    using Cons.IH [OF d, of "AList.update a (f v) acc"]
    by (auto simp: x update_conv' split: option.splits)
qed

lemma map_of_attributeData:
  "distinct (map fst (attributes p)) \<Longrightarrow>
   map_of (attributeData p) k =
     (case map_of (attributes p) k of
        None \<Rightarrow> None
      | Some v \<Rightarrow> Some (JObj [(''current'', JNum (attr_current v)),
                               (''max'', JNum (attr_max v)),
                               (''base'', JNum (attr_base v))]))"
  unfolding attributeData_def
  using map_of_foldl_update [of "attributes p"
      "\<lambda>v. JObj [(''current'', JNum (attr_current v)), (''max'', JNum (attr_max v)),
                 (''base'', JNum (attr_base v))]" "[]" k]
  by (simp split: option.splits)

text \<open>
  C8. The attributes of a player are the entries of a \<open>Map\<close>, so their names are
  distinct. If \<open>hp\<close> has current 5 and max 10, the prompt \<open>%hp.current% / %hp.max%\<close>
  with no extra data comes out as \<open>5 / 10\<close>; if there is no attribute \<open>unknown\<close>, the
  prompt \<open>%unknown.path%\<close> comes out as \<open>invalid-token\<close>. In both cases the loop ends.
\<close>

theorem C8_interpolatePrompt:
  "(distinct (map fst (attributes p)) \<and> map_of (attributes p) ''hp'' = Some v \<and>
      attr_current v = 5 \<and> attr_max v = 10
      \<longrightarrow> interpolatePrompt p ''%hp.current% / %hp.max%'' [] = Some ''5 / 10'')
   \<and> (distinct (map fst (attributes p)) \<and> map_of (attributes p) ''unknown'' = None
      \<longrightarrow> interpolatePrompt p ''%unknown.path%'' [] = Some ''invalid-token'')"
proof (intro conjI impI)
  assume a: "distinct (map fst (attributes p)) \<and> map_of (attributes p) ''hp'' = Some v \<and>
      attr_current v = 5 \<and> attr_max v = 10"
  then have hp: "map_of (attributeData p) ''hp'' =
      Some (JObj [(''current'', JNum 5), (''max'', JNum 10), (''base'', JNum (attr_base v))])"
    by (simp add: map_of_attributeData)
  have c: "resolve_token (attributeData p) ''hp.current'' = JNum 5"
    by (simp add: resolve_token_def split_hp_current hp)
  have m: "resolve_token (attributeData p) ''hp.max'' = JNum 10"
    by (simp add: resolve_token_def split_hp_max hp)
  have s3: "interpolate_loop (attributeData p) ''5 / 10'' = Some ''5 / 10''"
    by (subst interpolate_loop.simps) (simp add: match_done del: match_token.simps)
  have s2: "interpolate_loop (attributeData p) ''5 / %hp.max%'' = Some ''5 / 10''"
    by (subst interpolate_loop.simps)
       (simp add: match_hp_max m replace_hp_max s3 del: to_string.simps match_token.simps)
  have s1: "interpolate_loop (attributeData p) ''%hp.current% / %hp.max%'' = Some ''5 / 10''"
    by (subst interpolate_loop.simps)
       (simp add: match_hp_current c replace_hp_current s2 del: to_string.simps match_token.simps)
  show "interpolatePrompt p ''%hp.current% / %hp.max%'' [] = Some ''5 / 10''"
    by (simp add: interpolatePrompt_def object_assign_def s1)
next
  assume a: "distinct (map fst (attributes p)) \<and> map_of (attributes p) ''unknown'' = None"
  then have u: "map_of (attributeData p) ''unknown'' = None"
    by (simp add: map_of_attributeData)
  have c: "resolve_token (attributeData p) ''unknown.path'' = JUndefined"
    by (simp add: resolve_token_def split_unknown u)
  have s2: "interpolate_loop (attributeData p) ''invalid-token'' = Some ''invalid-token''"
    by (subst interpolate_loop.simps) (simp add: match_invalid del: match_token.simps)
  have s1: "interpolate_loop (attributeData p) ''%unknown.path%'' = Some ''invalid-token''"
    by (subst interpolate_loop.simps)
       (simp add: match_unknown c replace_unknown s2 del: match_token.simps)
  show "interpolatePrompt p ''%unknown.path%'' [] = Some ''invalid-token''"
    by (simp add: interpolatePrompt_def object_assign_def s1)
qed

theorem C8_interpolatePrompt_witness:
  "interpolatePrompt bob ''%hp.current% / %hp.max%'' [] = Some ''5 / 10''
   \<and> interpolatePrompt bob ''%unknown.path%'' [] = Some ''invalid-token''"
  using C8_interpolatePrompt [of bob "\<lparr>attr_current = 5, attr_max = 10, attr_base = 10\<rparr>"]
  by (simp add: bob_def)

subsection \<open>Hydration\<close>

text \<open>
  One iteration of the equipment loop whose exception, if any, the handler can log:
  it changes nothing of the player but its equipment, and there nothing but the slot at
  hand; it adds no room member; it logs the message of the exception, if there is one.
\<close>

lemma hydrate_slot_effect:
  assumes "equipment p = EqMap m" and "slot_caught st cls slot d"
  shows "\<exists>p' w' m'. hydrate_slot st cls slot d (p, w) = Inr (p', w') \<and>
           p' = p\<lparr>equipment := equipment p'\<rparr> \<and> equipment p' = EqMap m' \<and>
           members w' = members w \<and>
           errorLog w' = errorLog w @ slot_errors st cls [(slot, d)] \<and>
           (\<forall>s. s \<noteq> slot \<longrightarrow> map_of m' s = map_of m s) \<and>
           (\<forall>item. slot_result st cls slot d = Inr item \<longrightarrow> map_of m' slot = Some item)"
  using assms
  by (auto simp: hydrate_slot_def try_slot_def slot_result_def slot_caught_def slot_errors_def
      Character_equip_def record_call_def Let_def update_conv'
      split: sum.splits option.splits)

lemma slot_errors_Cons:
  "slot_errors st cls ((slot, d) # defs) = slot_errors st cls [(slot, d)] @ slot_errors st cls defs"
  by (simp add: slot_errors_def)

lemma hydrate_slots_effect:
  assumes "equipment p = EqMap m"
    and "list_all (\<lambda>(slot, d). slot_caught st cls slot d) defs"
  shows "\<exists>p' w' m'. hydrate_slots st cls defs (p, w) = Inr (p', w') \<and>
           p' = p\<lparr>equipment := equipment p'\<rparr> \<and> equipment p' = EqMap m' \<and>
           members w' = members w \<and>
           errorLog w' = errorLog w @ slot_errors st cls defs \<and>
           (\<forall>s. s \<notin> fst ` set defs \<longrightarrow> map_of m' s = map_of m s) \<and>
           (distinct (map fst defs) \<longrightarrow>
              (\<forall>(s, d) \<in> set defs. \<forall>item. slot_result st cls s d = Inr item
                   \<longrightarrow> map_of m' s = Some item))"
  using assms
proof (induction defs arbitrary: p w m)
  case Nil
  then show ?case by (simp add: slot_errors_def)
next
  case (Cons x defs)
  obtain slot d where x: "x = (slot, d)" by (cases x)
  from Cons.prems(2) have caught: "slot_caught st cls slot d"
    and rest: "list_all (\<lambda>(slot, d). slot_caught st cls slot d) defs"
    by (simp_all add: x)
  from hydrate_slot_effect [OF Cons.prems(1) caught, of w]
  obtain p1 w1 m1 where
    h: "hydrate_slot st cls slot d (p, w) = Inr (p1, w1)"
    and p1: "p1 = p\<lparr>equipment := equipment p1\<rparr>" and e1: "equipment p1 = EqMap m1"
    and mem1: "members w1 = members w"
    and log1: "errorLog w1 = errorLog w @ slot_errors st cls [(slot, d)]"
    and other1: "\<forall>s. s \<noteq> slot \<longrightarrow> map_of m1 s = map_of m s"
    and this1: "\<forall>item. slot_result st cls slot d = Inr item \<longrightarrow> map_of m1 slot = Some item"
    by blast
  from Cons.IH [OF e1 rest, of w1]
  obtain p' w' m' where
    hs: "hydrate_slots st cls defs (p1, w1) = Inr (p', w')"
    and p': "p' = p1\<lparr>equipment := equipment p'\<rparr>" and e': "equipment p' = EqMap m'"
    and mem': "members w' = members w1"
    and log': "errorLog w' = errorLog w1 @ slot_errors st cls defs"
    and other': "\<forall>s. s \<notin> fst ` set defs \<longrightarrow> map_of m' s = map_of m1 s"
    and these': "distinct (map fst defs) \<longrightarrow>
              (\<forall>(s, d) \<in> set defs. \<forall>item. slot_result st cls s d = Inr item
                   \<longrightarrow> map_of m' s = Some item)"
    by blast
  have run: "hydrate_slots st cls (x # defs) (p, w) = Inr (p', w')"
    by (simp add: x h hs)
  have frame: "p' = p\<lparr>equipment := equipment p'\<rparr>"
    by (subst p', subst p1) simp
  have logged: "errorLog w' = errorLog w @ slot_errors st cls (x # defs)"
    by (simp add: log' log1 x slot_errors_Cons [of st cls slot d defs])
  have other: "\<forall>s. s \<notin> fst ` set (x # defs) \<longrightarrow> map_of m' s = map_of m s"
    using other' other1 by (simp add: x)
  have these: "distinct (map fst (x # defs)) \<longrightarrow>
              (\<forall>(s, d) \<in> set (x # defs). \<forall>item. slot_result st cls s d = Inr item
                   \<longrightarrow> map_of m' s = Some item)"
  proof
    assume dist: "distinct (map fst (x # defs))"
    then have fresh: "slot \<notin> fst ` set defs" and dd: "distinct (map fst defs)"
      by (simp_all add: x)
    have first: "\<forall>item. slot_result st cls slot d = Inr item \<longrightarrow> map_of m' slot = Some item"
      using other' fresh this1 by simp
    show "\<forall>(s, d) \<in> set (x # defs). \<forall>item. slot_result st cls s d = Inr item
                   \<longrightarrow> map_of m' s = Some item"
      using first these' dd by (auto simp: x)
  qed
  show ?case
    using run frame e' mem' mem1 logged other these by auto
qed

lemma hydrate_equipment_effect:
  assumes "equipment_completes st cls p"
  shows "\<exists>p' w' m'. hydrate_equipment st cls p w = Inr (p', w') \<and>
     p' = p\<lparr>equipment := equipment p'\<rparr> \<and> equipment p' = EqMap m' \<and>
     members w' = members w \<and>
     errorLog w' = errorLog w @ equipment_errors st cls p \<and>
     (\<forall>defs. equipment p = EqLegacy defs \<longrightarrow>
        (\<forall>s. s \<notin> fst ` set defs \<longrightarrow> map_of m' s = None) \<and>
        (distinct (map fst defs) \<longrightarrow>
           (\<forall>(s, d) \<in> set defs. \<forall>item. slot_result st cls s d = Inr item
                \<longrightarrow> map_of m' s = Some item))) \<and>
     ((\<forall>defs. equipment p \<noteq> EqLegacy defs) \<longrightarrow> m' = [])"
proof (cases "equipment p")
  case (EqLegacy defs)
  have e0: "equipment (p\<lparr>equipment := EqMap []\<rparr>) = EqMap []" by simp
  have all: "list_all (\<lambda>(slot, d). slot_caught st cls slot d) defs"
    using assms EqLegacy by (simp add: equipment_completes_def)
  from hydrate_slots_effect [OF e0 all, of w]
  obtain p' w' m' where
    hs: "hydrate_slots st cls defs (p\<lparr>equipment := EqMap []\<rparr>, w) = Inr (p', w')"
    and p': "p' = p\<lparr>equipment := EqMap []\<rparr>\<lparr>equipment := equipment p'\<rparr>" and e': "equipment p' = EqMap m'"
    and mem': "members w' = members w"
    and log': "errorLog w' = errorLog w @ slot_errors st cls defs"
    and other': "\<forall>s. s \<notin> fst ` set defs \<longrightarrow> map_of m' s = map_of [] s"
    and these': "distinct (map fst defs) \<longrightarrow>
              (\<forall>(s, d) \<in> set defs. \<forall>item. slot_result st cls s d = Inr item
                   \<longrightarrow> map_of m' s = Some item)"
    by blast
  have frame: "p' = p\<lparr>equipment := equipment p'\<rparr>"
    by (subst p') simp
  show ?thesis
    using hs frame e' mem' log' other' these' EqLegacy
    by (simp add: hydrate_equipment_def equipment_errors_def)
qed (simp_all add: hydrate_equipment_def equipment_errors_def)

lemma moveTo_same_room:
  assumes "room p = RoomRef r"
  shows "moveTo (Some r) Noop p w =
           Inr (p, w\<lparr>members := (members w)(r := insert (pid p) (members w r)),
                     trace := trace w @ enter_calls r p\<rparr>)"
proof -
  have "p\<lparr>room := RoomRef r\<rparr> = p" using assms [symmetric] by simp
  then show ?thesis
    using assms
    by (simp add: moveTo_def Room_emit_def Room_addPlayer_def emit_def enter_calls_def
      EventEmitter_emit_def QuestTracker_emit_def record_call_def Let_def)
qed

lemma hydrate_room_resolved:
  assumes "room p = RoomId s" and "getRoom st s = Some r"
  shows "hydrate_room st p w =
           Inr (p\<lparr>room := RoomRef r\<rparr>,
                w\<lparr>members := (members w)(r := insert (pid p) (members w r)),
                  trace := trace w @ enter_calls r p\<rparr>)"
  using assms moveTo_same_room [of "p\<lparr>room := RoomRef r\<rparr>" r w]
  by (simp add: hydrate_room_def enter_calls_def)

lemma hydrate_room_placeholder:
  assumes "room p = RoomId s" and "getRoom st s = None"
    and "getPlaceholderArea st = Some a" and "getRoomById st a ''placeholder'' = Some r"
  shows "hydrate_room st p w =
           Inr (p\<lparr>room := RoomRef r\<rparr>,
                w\<lparr>members := (members w)(r := insert (pid p) (members w r)),
                  trace := trace w @ enter_calls r p,
                  errorLog := errorLog w @ [invalid_room_message (name p) s]\<rparr>)"
  using assms
    moveTo_same_room [of "p\<lparr>room := RoomRef r\<rparr>" r
       "w\<lparr>errorLog := errorLog w @ [invalid_room_message (name p) s]\<rparr>"]
  by (simp add: hydrate_room_def enter_calls_def Let_def)

lemma hydrate_room_live:
  assumes "\<forall>s. room p \<noteq> RoomId s"
  shows "hydrate_room st p w = Inr (p, w)"
  using assms by (cases "room p") (simp_all add: hydrate_room_def)

text \<open>
  When the equipment step runs through, \<open>hydrate\<close> is its room step, applied to a player
  that is hydrated, has its account looked up and its equipment in a \<open>Map\<close>.
\<close>

lemma hydrate_reaches_room_step:
  assumes "equipment_completes st cls p"
  shows "\<exists>p4 w4 m'. hydrate st cls p w = hydrate_room st p4 w4 \<and>
     pid p4 = pid p \<and> name p4 = name p \<and> room p4 = room p \<and> hydrated p4 \<and>
     pruned p4 = pruned p \<and> experience p4 = experience p \<and> password p4 = password p \<and>
     prompt p4 = prompt p \<and> role p4 = role p \<and> inventoryMax p4 = inventoryMax p \<and>
     questTracker p4 = QuestTracker_hydrate cls (questTracker p) \<and>
     account p4 = (case account p of AccountId s \<Rightarrow> getAccount st s | other \<Rightarrow> other) \<and>
     equipment p4 = EqMap m' \<and>
     members w4 = members w \<and>
     errorLog w4 = errorLog w @ equipment_errors st cls p \<and>
     (\<forall>defs. equipment p = EqLegacy defs \<longrightarrow>
        (\<forall>s. s \<notin> fst ` set defs \<longrightarrow> map_of m' s = None) \<and>
        (distinct (map fst defs) \<longrightarrow>
           (\<forall>(s, d) \<in> set defs. \<forall>item. slot_result st cls s d = Inr item
                \<longrightarrow> map_of m' s = Some item))) \<and>
     ((\<forall>defs. equipment p \<noteq> EqLegacy defs) \<longrightarrow> m' = [])"
proof -
  define p2 where "p2 = (Character_hydrate p)\<lparr>questTracker := QuestTracker_hydrate cls (questTracker (Character_hydrate p))\<rparr>"
  define p3 where "p3 = (case account p2 of
                  AccountId s \<Rightarrow> p2\<lparr>account := getAccount st s\<rparr>
                | _ \<Rightarrow> p2)"
  define w3 where "w3 = record_call InventoryHydrate p3 (record_call QuestTrackerHydrate (Character_hydrate p) w)"
  have run: "hydrate st cls p w =
      (case hydrate_equipment st cls p3 w3 of
            Inl e \<Rightarrow> Inl e
          | Inr (p4, w4) \<Rightarrow> hydrate_room st p4 w4)"
    unfolding hydrate_def Let_def w3_def p3_def p2_def by (rule refl)
  have p3_equipment: "equipment p3 = equipment p"
    by (simp add: p3_def p2_def Character_hydrate_def split: account_field.splits)
  have p3_account: "account p3 = (case account p of AccountId s \<Rightarrow> getAccount st s | other \<Rightarrow> other)"
    by (simp add: p3_def p2_def Character_hydrate_def split: account_field.splits)
  have p3_rest: "pid p3 = pid p" "name p3 = name p" "room p3 = room p" "hydrated p3"
     "pruned p3 = pruned p" "experience p3 = experience p" "password p3 = password p"
     "prompt p3 = prompt p" "role p3 = role p" "inventoryMax p3 = inventoryMax p"
     "questTracker p3 = QuestTracker_hydrate cls (questTracker p)"
    by (simp_all add: p3_def p2_def Character_hydrate_def split: account_field.splits)
  have w3_facts: "members w3 = members w" "errorLog w3 = errorLog w"
    by (simp_all add: w3_def members_record_call errorLog_record_call)
  have completes3: "equipment_completes st cls p3"
    using assms by (simp add: equipment_completes_def p3_equipment)
  from hydrate_equipment_effect [OF completes3, of w3]
  obtain p4 w4 m' where
    he: "hydrate_equipment st cls p3 w3 = Inr (p4, w4)"
    and frame: "p4 = p3\<lparr>equipment := equipment p4\<rparr>" and e4: "equipment p4 = EqMap m'"
    and mem4: "members w4 = members w3"
    and log4: "errorLog w4 = errorLog w3 @ equipment_errors st cls p3"
    and legacy: "\<forall>defs. equipment p3 = EqLegacy defs \<longrightarrow>
        (\<forall>s. s \<notin> fst ` set defs \<longrightarrow> map_of m' s = None) \<and>
        (distinct (map fst defs) \<longrightarrow>
           (\<forall>(s, d) \<in> set defs. \<forall>item. slot_result st cls s d = Inr item
                \<longrightarrow> map_of m' s = Some item))"
    and other: "(\<forall>defs. equipment p3 \<noteq> EqLegacy defs) \<longrightarrow> m' = []"
    by blast
  have sel: "pid p4 = pid p3" "name p4 = name p3" "room p4 = room p3" "hydrated p4 = hydrated p3"
     "pruned p4 = pruned p3" "experience p4 = experience p3" "password p4 = password p3"
     "prompt p4 = prompt p3" "role p4 = role p3" "inventoryMax p4 = inventoryMax p3"
     "questTracker p4 = questTracker p3" "account p4 = account p3"
    by (subst frame, simp)+
  have errs: "equipment_errors st cls p3 = equipment_errors st cls p"
    by (simp add: equipment_errors_def p3_equipment)
  have "hydrate st cls p w = hydrate_room st p4 w4"
    by (simp add: run he)
  then show ?thesis
    using sel p3_rest p3_account e4 mem4 log4 legacy other w3_facts errs p3_equipment
    by (intro exI [of _ p4] exI [of _ w4] exI [of _ m']) simp
qed

lemma hydrate_room_effect:
  assumes "\<forall>s. room p = RoomId s \<longrightarrow>
             (\<exists>r. getRoom st s = Some r) \<or>
             (\<exists>a r. getPlaceholderArea st = Some a \<and> getRoomById st a ''placeholder'' = Some r)"
  shows "\<exists>p' w'. hydrate_room st p w = Inr (p', w') \<and> p' = p\<lparr>room := room p'\<rparr> \<and>
           set (errorLog w) \<subseteq> set (errorLog w')"
proof (cases "\<exists>s. room p = RoomId s")
  case False
  then show ?thesis by (simp add: hydrate_room_live)
next
  case True
  then obtain s where s: "room p = RoomId s" by blast
  show ?thesis
  proof (cases "getRoom st s")
    case (Some r)
    then show ?thesis by (simp add: hydrate_room_resolved [OF s])
  next
    case None
    with assms s obtain a r where
      "getPlaceholderArea st = Some a" "getRoomById st a ''placeholder'' = Some r"
      by auto
    then show ?thesis by (auto simp: hydrate_room_placeholder [OF s None])
  qed
qed

lemma slot_errors_member:
  "(slot, d) \<in> set defs \<Longrightarrow> slot_result st cls slot d = Inl e \<Longrightarrow> message e = Inr m \<Longrightarrow>
   m \<in> set (slot_errors st cls defs)"
  by (force simp: slot_errors_def)

text \<open>
  What the \<open>try\<close> block and its handler achieve for every exception that has a message
  to read: \<open>hydrate\<close> returns, every slot that is rebuilt is equipped whatever the other
  slots throw, and every message is in the log.
\<close>

lemma caught_failures_isolated:
  assumes "equipment p = EqLegacy defs" and "distinct (map fst defs)"
    and "equipment_completes st cls p"
    and "\<forall>s. room p = RoomId s \<longrightarrow>
             (\<exists>r. getRoom st s = Some r) \<or>
             (\<exists>a r. getPlaceholderArea st = Some a \<and> getRoomById st a ''placeholder'' = Some r)"
  shows "\<exists>p' w' m'. hydrate st cls p w = Inr (p', w') \<and> hydrated p' \<and> equipment p' = EqMap m' \<and>
     (\<forall>(slot, d) \<in> set defs. \<forall>item. slot_result st cls slot d = Inr item
          \<longrightarrow> map_of m' slot = Some item) \<and>
     (\<forall>(slot, d) \<in> set defs. \<forall>e m. slot_result st cls slot d = Inl e \<longrightarrow> message e = Inr m
          \<longrightarrow> m \<in> set (errorLog w')) \<and>
     (\<forall>slot. slot \<notin> fst ` set defs \<longrightarrow> map_of m' slot = None)"
proof -
  from hydrate_reaches_room_step [OF assms(3), of w]
  obtain p4 w4 m' where
    run: "hydrate st cls p w = hydrate_room st p4 w4"
    and r4: "room p4 = room p" and h4: "hydrated p4" and e4: "equipment p4 = EqMap m'"
    and log4: "errorLog w4 = errorLog w @ equipment_errors st cls p"
    and legacy: "\<forall>defs. equipment p = EqLegacy defs \<longrightarrow>
        (\<forall>s. s \<notin> fst ` set defs \<longrightarrow> map_of m' s = None) \<and>
        (distinct (map fst defs) \<longrightarrow>
           (\<forall>(s, d) \<in> set defs. \<forall>item. slot_result st cls s d = Inr item
                \<longrightarrow> map_of m' s = Some item))"
    by blast
  have room4: "\<forall>s. room p4 = RoomId s \<longrightarrow>
             (\<exists>r. getRoom st s = Some r) \<or>
             (\<exists>a r. getPlaceholderArea st = Some a \<and> getRoomById st a ''placeholder'' = Some r)"
    using assms(4) by (simp add: r4)
  from hydrate_room_effect [OF room4, of w4]
  obtain p' w' where
    hr: "hydrate_room st p4 w4 = Inr (p', w')" and frame: "p' = p4\<lparr>room := room p'\<rparr>"
    and log': "set (errorLog w4) \<subseteq> set (errorLog w')"
    by blast
  have h': "hydrated p'" by (subst frame) (simp add: h4)
  have e': "equipment p' = EqMap m'" by (subst frame) (simp add: e4)
  have logged: "set (slot_errors st cls defs) \<subseteq> set (errorLog w')"
    using log' log4 assms(1) by (simp add: equipment_errors_def)
  have good: "\<forall>(s, d) \<in> set defs. \<forall>item. slot_result st cls s d = Inr item
                \<longrightarrow> map_of m' s = Some item"
    using legacy assms(1,2) by blast
  have absent: "\<forall>s. s \<notin> fst ` set defs \<longrightarrow> map_of m' s = None"
    using legacy assms(1) by blast
  have bad: "\<forall>(slot, d) \<in> set defs. \<forall>e m. slot_result st cls slot d = Inl e \<longrightarrow> message e = Inr m
          \<longrightarrow> m \<in> set (errorLog w')"
    using slot_errors_member logged by fastforce
  show ?thesis
    using run hr h' e' good bad absent by auto
qed

text \<open>
  C6. The handler of the \<open>try\<close> block logs \<open>e.message\<close>, and that read is itself a
  TypeError when the value thrown is null or undefined: the exception then leaves the
  loop and \<open>hydrate\<close>. Here the item factory throws \<open>undefined\<close> for the first of two
  slots: \<open>hydrate\<close> ends in the TypeError, nothing is logged, the second slot, which
  would have been rebuilt, is not equipped, and the room step is not reached.
\<close>

theorem C6_thrown_undefined_aborts_hydrate:
  "hydrate cursed rules cold_bob limbo =
     Inl (TypeError ''Cannot read properties of undefined (reading 'message')'',
          cold_bob\<lparr>hydrated := True, account := AccountRef \<lparr>account_name = ''bobs''\<rparr>,
                   equipment := EqMap []\<rparr>,
          limbo\<lparr>trace := [(QuestTrackerHydrate, RoomId ''nowhere''),
                           (InventoryHydrate, RoomId ''nowhere'')]\<rparr>)"
  by (simp add: hydrate_def hydrate_equipment_def hydrate_slot_def try_slot_def
      Character_hydrate_def record_call_def cursed_def town_def rules_def cold_bob_def bob_def
      limbo_def Let_def)




subsection \<open>Round trip\<close>

lemma map_of_serialized:
  "map_of (map (\<lambda>(slot, item). (slot, f item)) m) k = map_option f (map_of m k)"
  by (induction m) auto

text \<open>
  C1. As stated the claim fails: a snapshot whose room and equipment identifiers resolve
  need not have an account, and \<open>serialize\<close> reads the name of the account. Here a
  snapshot with a room that resolves, two slots that are rebuilt, and no account is
  hydrated, which returns, and serialized, which throws.
\<close>

theorem C1_missing_account_breaks_round_trip:
  "\<not> isl (hydrate town rules (Player_new rules squatter (Character_new 1 squatter)) limbo) \<and>
   round_trip town rules 1 squatter limbo
     = Inl (TypeError ''Cannot read properties of null (reading 'name')'')"
  by (simp add: round_trip_def hydrate_def hydrate_equipment_def hydrate_slot_def try_slot_def
      hydrate_room_def moveTo_def Room_addPlayer_def Room_emit_def emit_def
      EventEmitter_emit_def QuestTracker_emit_def Character_equip_def
      Character_hydrate_def record_call_def serialize_def Player_new_def Character_new_def
      squatter_def saved_bob_def town_def rules_def limbo_def Let_def)

text \<open>
  C1, amended. A snapshot is valid for the collaborators at hand when its room
  identifier resolves to a room that carries this identifier, its account identifier
  resolves to an account, and every equipment slot is rebuilt without an exception into
  an item that serializes to the descriptor it was built from. The collaborators are
  taken to give back what they were given: the base-class serialization flattens a live
  room to its identifier, and the quest tracker serializes, after hydration, the active
  and completed quests it was seeded with. For every such snapshot, constructing a
  player from it, hydrating the player and serializing it again returns a snapshot with
  the same room identifier, the same occupied slots holding the same descriptors, and
  the same sets of active and completed quests.
\<close>

theorem C1_round_trip:
  assumes "b_room (s_base data) = Some rid" and "getRoom st rid = Some r"
    and "Room_entityReference cls r = rid"
    and "\<forall>q r'. room q = RoomRef r' \<longrightarrow>
           (\<exists>b. Character_serialize cls q = Inr b \<and> b_room b = Some (Room_entityReference cls r'))"
    and "s_account data = Some aid" and "aid \<noteq> []" and "getAccount st aid = AccountRef acc"
    and "distinct (map fst (snapshot_equipment data))"
    and "\<forall>(slot, d) \<in> set (snapshot_equipment data).
            \<exists>item. slot_result st cls slot d = Inr item \<and> Item_serialize cls item = d"
    and "\<forall>q. set (q_active (QuestTracker_serialize cls (QuestTracker_hydrate cls q))) = set (q_active q)
            \<and> set (q_completed (QuestTracker_serialize cls (QuestTracker_hydrate cls q)))
                = set (q_completed q)"
  shows "\<exists>p' w' data'.
           hydrate st cls (Player_new cls data (Character_new ident data)) w = Inr (p', w') \<and>
           serialize cls p' = Inr data' \<and>
           round_trip st cls ident data w = Inr data' \<and>
           b_room (s_base data') = b_room (s_base data) \<and>
           map_of (snapshot_equipment data') = map_of (snapshot_equipment data) \<and>
           set (q_active (snapshot_quests data')) = set (q_active (snapshot_quests data)) \<and>
           set (q_completed (snapshot_quests data')) = set (q_completed (snapshot_quests data))"
proof -
  define p0 :: "'a player" where "p0 = Player_new cls data (Character_new ident data)"
  have room0: "room p0 = RoomId rid"
    by (simp add: p0_def Player_new_def Character_new_def Let_def assms(1))
  have account0: "account p0 = AccountId aid"
    by (simp add: p0_def Player_new_def Character_new_def Let_def assms(5,6))
  have quests0: "questTracker p0 = snapshot_quests data"
    by (simp add: p0_def Player_new_def Character_new_def Let_def snapshot_quests_def
        split: option.splits)
  have equipment0: "equipment p0 =
      (case s_equipment data of None \<Rightarrow> EqAbsent | Some defs \<Rightarrow> EqLegacy defs)"
    by (simp add: p0_def Player_new_def Character_new_def Let_def)
  have completes: "equipment_completes st cls p0"
  proof -
    have "slot_caught st cls slot d" if "(slot, d) \<in> set (snapshot_equipment data)" for slot d
      using assms(9) that by (auto simp: slot_caught_def)
    then show ?thesis
      by (auto simp: equipment_completes_def equipment0 snapshot_equipment_def list_all_iff
          split: option.splits)
  qed
  from hydrate_reaches_room_step [OF completes, of w]
  obtain p4 w4 m' where
    run: "hydrate st cls p0 w = hydrate_room st p4 w4"
    and r4: "room p4 = room p0"
    and q4: "questTracker p4 = QuestTracker_hydrate cls (questTracker p0)"
    and a4: "account p4 = (case account p0 of AccountId s \<Rightarrow> getAccount st s | other \<Rightarrow> other)"
    and e4: "equipment p4 = EqMap m'"
    and legacy: "\<forall>defs. equipment p0 = EqLegacy defs \<longrightarrow>
        (\<forall>s. s \<notin> fst ` set defs \<longrightarrow> map_of m' s = None) \<and>
        (distinct (map fst defs) \<longrightarrow>
           (\<forall>(s, d) \<in> set defs. \<forall>item. slot_result st cls s d = Inr item
                \<longrightarrow> map_of m' s = Some item))"
    and other: "(\<forall>defs. equipment p0 \<noteq> EqLegacy defs) \<longrightarrow> m' = []"
    by blast
  define p' where "p' = p4\<lparr>room := RoomRef r\<rparr>"
  have r4': "room p4 = RoomId rid" by (simp add: r4 room0)
  from hydrate_room_resolved [OF r4' assms(2), of w4]
  obtain w' where hyd: "hydrate st cls p0 w = Inr (p', w')"
    by (simp add: run p'_def)
  have room': "room p' = RoomRef r" by (simp add: p'_def)
  have account': "account p' = AccountRef acc"
    by (simp add: p'_def a4 account0 assms(7))
  have quests': "questTracker p' = QuestTracker_hydrate cls (snapshot_quests data)"
    by (simp add: p'_def q4 quests0)
  have equipment': "equipment p' = EqMap m'" by (simp add: p'_def e4)
  from assms(4) room' obtain b where
    base: "Character_serialize cls p' = Inr b"
    and b_room: "b_room b = Some (Room_entityReference cls r)"
    by blast
  define data' where "data' =
     \<lparr>s_base = b, s_account = Some (account_name acc), s_experience = experience p',
      s_inventoryMax = inventoryMax p', s_password = password p', s_prompt = prompt p',
      s_quests = Some (QuestTracker_serialize cls (questTracker p')), s_role = role p',
      s_equipment = Some (map (\<lambda>(slot, item). (slot, Item_serialize cls item)) m')\<rparr>"
  have ser: "serialize cls p' = Inr data'"
    by (simp add: serialize_def base account' equipment' data'_def)
  have trip: "round_trip st cls ident data w = Inr data'"
    using hyd ser by (simp add: round_trip_def p0_def)
  have sroom: "b_room (s_base data') = b_room (s_base data)"
    by (simp add: data'_def b_room assms(1,3))
  have squests: "snapshot_quests data' =
      QuestTracker_serialize cls (QuestTracker_hydrate cls (snapshot_quests data))"
    by (simp add: data'_def snapshot_quests_def quests')
  have seq: "map_of (snapshot_equipment data') k = map_of (snapshot_equipment data) k" for k
  proof (cases "s_equipment data")
    case None
    then have "m' = []" using other equipment0 by simp
    then show ?thesis by (simp add: data'_def snapshot_equipment_def None)
  next
    case (Some defs)
    then have leg: "equipment p0 = EqLegacy defs" by (simp add: equipment0)
    have defs: "snapshot_equipment data = defs" by (simp add: snapshot_equipment_def Some)
    have lhs: "map_of (snapshot_equipment data') k = map_option (Item_serialize cls) (map_of m' k)"
      by (simp add: data'_def snapshot_equipment_def map_of_serialized)
    show ?thesis
    proof (cases "k \<in> fst ` set defs")
      case False
      then have "map_of m' k = None" using legacy leg by blast
      moreover have "map_of defs k = None" using False by (simp add: map_of_eq_None_iff)
      ultimately show ?thesis by (simp add: lhs defs)
    next
      case True
      then obtain d where kd: "(k, d) \<in> set defs" by auto
      with assms(9) defs obtain item where
        it: "slot_result st cls k d = Inr item" and again: "Item_serialize cls item = d"
        by auto
      have dist: "distinct (map fst defs)" using assms(8) defs by simp
      have "map_of m' k = Some item" using legacy leg dist kd it by blast
      moreover have "map_of defs k = Some d" using dist kd by (rule map_of_is_SomeI)
      ultimately show ?thesis by (simp add: lhs defs again)
    qed
  qed
  then have seq': "map_of (snapshot_equipment data') = map_of (snapshot_equipment data)"
    by (rule ext)
  show ?thesis
    using hyd ser trip sroom seq' squests assms(10) unfolding p0_def by auto
qed

theorem C1_round_trip_witness:
  "\<exists>p' w' data'.
      hydrate town rules (Player_new rules saved_bob (Character_new 1 saved_bob)) limbo = Inr (p', w') \<and>
      serialize rules p' = Inr data' \<and>
      round_trip town rules 1 saved_bob limbo = Inr data' \<and>
      b_room (s_base data') = Some ''town:square'' \<and>
      map_of (snapshot_equipment data') = map_of (snapshot_equipment saved_bob) \<and>
      set (q_active (snapshot_quests data')) = {''rats''} \<and>
      set (q_completed (snapshot_quests data')) = {''intro''}"
  using C1_round_trip [of saved_bob "''town:square''" town 3 rules "''bobs''"
      "\<lparr>account_name = ''bobs''\<rparr>" 1 limbo]
  by (simp add: saved_bob_def town_def rules_def snapshot_equipment_def snapshot_quests_def
      slot_result_def)

end
